theory Spec2Isabelle
  imports Complex_Main "HOL-Library.Word"
begin

section \<open>JavaScript strings and numbers\<close>

text \<open>
  A JavaScript string is a sequence of UTF-16 code units; \<open>length\<close> counts code units,
  as \<^verbatim>\<open>String.prototype.length\<close> does. Literals of the source are ASCII and are
  written through \<open>lit\<close>.
\<close>

type_synonym code_unit = "16 word"
type_synonym js_string = "code_unit list"

definition lit :: "string \<Rightarrow> js_string" where
  "lit s = map (\<lambda>c. of_nat (of_char c)) s"

text \<open>
  The code units removed by \<^verbatim>\<open>String.prototype.trim\<close>: ECMAScript's WhiteSpace
  (TAB, VT, FF, SP, NBSP, ZWNBSP and the space separators) and LineTerminator
  (LF, CR, LS, PS).
\<close>

definition isWhiteSpace :: "code_unit \<Rightarrow> bool" where
  "isWhiteSpace c \<longleftrightarrow>
     c \<in> set [0x0009, 0x000A, 0x000B, 0x000C, 0x000D, 0x0020, 0x00A0, 0x1680,
                0x2028, 0x2029, 0x202F, 0x205F, 0x3000, 0xFEFF]
     \<or> (0x2000 \<le> c \<and> c \<le> 0x200A)"

definition js_trim :: "js_string \<Rightarrow> js_string" where
  "js_trim s = rev (dropWhile isWhiteSpace (rev (dropWhile isWhiteSpace s)))"

text \<open>
  A JavaScript number, as far as the validation looks at it: a finite value, NaN, or
  an infinity (\<open>Infinity True\<close> is the positive one).
\<close>

datatype js_number = Finite rat | NaN | Infinity bool

definition isInteger :: "js_number \<Rightarrow> bool" where
  "isInteger v = (case v of Finite r \<Rightarrow> of_int \<lfloor>r\<rfloor> = r | _ \<Rightarrow> False)"

definition js_gt :: "js_number \<Rightarrow> rat \<Rightarrow> bool" where
  "js_gt v b = (case v of Finite r \<Rightarrow> r > b | NaN \<Rightarrow> False | Infinity p \<Rightarrow> p)"

definition js_ge :: "js_number \<Rightarrow> rat \<Rightarrow> bool" where
  "js_ge v b = (case v of Finite r \<Rightarrow> r \<ge> b | NaN \<Rightarrow> False | Infinity p \<Rightarrow> p)"

text \<open>
  Unary plus on a string (\<^verbatim>\<open>+event.target.value\<close>): a string that is empty or
  holds white space only converts to 0; any other string is read as a numeric literal
  by the language runtime, which is the parameter \<open>numericLiteral\<close>.
\<close>

definition unary_plus :: "(js_string \<Rightarrow> js_number) \<Rightarrow> js_string \<Rightarrow> js_number" where
  "unary_plus numericLiteral s =
     (if js_trim s = [] then Finite 0 else numericLiteral (js_trim s))"


section \<open>Validation schemas\<close>

text \<open>
  A zod issue: its code, the field it is reported at, and the message the source gives
  (\<open>None\<close> where the source leaves zod's default message). A schema returns
  \<open>Inl\<close> of the collected issues or \<open>Inr\<close> of the parsed value.
\<close>

datatype issue_code = too_small | too_big | invalid_string | invalid_type
  | invalid_enum_value | custom

datatype zod_issue = Issue issue_code string "string option"

subsection \<open>commentFormSchema (the dialog with comments, lines 30-43)\<close>

text \<open>
  \<^verbatim>\<open>z.string().min(1, ..).max(150, ..).refine((value) => value.trim() !== '', ..)
     .transform((val) => val.trim())\<close>
  The checks \<open>min\<close> and \<open>max\<close> look at the string as entered. Both run, and the
  refinement runs on a string that already has issues; the transform runs only when
  there is no issue.
\<close>

definition commentFormSchema :: "js_string \<Rightarrow> zod_issue list + js_string" where
  "commentFormSchema val =
     (let issues =
        (if length val < 1
         then [Issue too_small ''content'' (Some ''Comment must be at least 1 character.'')]
         else []) @
        (if length val > 150
         then [Issue too_big ''content''
                 (Some ''Comment must not be longer than 150 characters.'')]
         else []) @
        (if js_trim val \<noteq> [] then []
         else [Issue custom ''content''
                 (Some ''String cannot be empty or contain only whitespace'')])
      in if issues = [] then Inr (js_trim val) else Inl issues)"

subsection \<open>speciesSchema (species-details-dialog.tsx, lines 31-58)\<close>

text \<open>The values of the species form, before and after validation.\<close>

record species_form =
  scientific_name :: js_string
  common_name :: "js_string option"
  kingdom :: js_string
  total_population :: "js_number option"
  image :: "js_string option"
  description :: "js_string option"

definition kingdoms :: "js_string list" where
  "kingdoms = map lit [''Animalia'', ''Plantae'', ''Fungi'', ''Protista'', ''Archaea'',
     ''Bacteria'']"

text \<open>\<^verbatim>\<open>z.string().trim().min(1).transform((val) => val?.trim())\<close>\<close>

definition scientific_name_schema :: "js_string \<Rightarrow> zod_issue list + js_string" where
  "scientific_name_schema val =
     (let t = js_trim val
      in if length t < 1 then Inl [Issue too_small ''scientific_name'' None]
         else Inr (js_trim t))"

text \<open>
  \<^verbatim>\<open>(val) => (!val || val.trim() === "" ? null : val.trim())\<close>, the transform of
  the three optional fields; \<open>None\<close> is \<^verbatim>\<open>null\<close>.
\<close>

definition empty_to_null :: "js_string option \<Rightarrow> js_string option" where
  "empty_to_null val =
     (case val of None \<Rightarrow> None
      | Some s \<Rightarrow> if s = [] \<or> js_trim s = [] then None else Some (js_trim s))"

text \<open>\<^verbatim>\<open>z.string().nullable().transform(..)\<close> (common_name, description)\<close>

definition nullable_string_schema :: "js_string option \<Rightarrow> zod_issue list + js_string option" where
  "nullable_string_schema val = Inr (empty_to_null val)"

text \<open>\<^verbatim>\<open>kingdoms = z.enum([..])\<close>\<close>

definition kingdom_schema :: "js_string \<Rightarrow> zod_issue list + js_string" where
  "kingdom_schema val =
     (if val \<in> set kingdoms then Inr val else Inl [Issue invalid_enum_value ''kingdom'' None])"

text \<open>
  \<^verbatim>\<open>z.number().int().positive().min(1).nullable()\<close>: \<^verbatim>\<open>null\<close> passes; NaN is
  not a number for zod; the three checks all run and each adds its issue.
\<close>

definition total_population_schema :: "js_number option \<Rightarrow> zod_issue list + js_number option" where
  "total_population_schema val =
     (case val of None \<Rightarrow> Inr None
      | Some NaN \<Rightarrow> Inl [Issue invalid_type ''total_population'' None]
      | Some v \<Rightarrow>
          (let issues =
             (if isInteger v then [] else [Issue invalid_type ''total_population'' None]) @
             (if js_gt v 0 then [] else [Issue too_small ''total_population'' None]) @
             (if js_ge v 1 then [] else [Issue too_small ''total_population'' None])
           in if issues = [] then Inr (Some v) else Inl issues))"

text \<open>
  \<^verbatim>\<open>z.string().url().nullable().transform(..)\<close>: \<^verbatim>\<open>null\<close> passes the nullable
  wrapper; a string goes to the \<open>url\<close> check, which is zod's
  \<^verbatim>\<open>try { new URL(data) } catch { issue }\<close>. The platform's URL constructor is the
  parameter \<open>newURL\<close> (true when it does not throw). The transform runs only on a
  value without issue.
\<close>

definition image_schema ::
  "(js_string \<Rightarrow> bool) \<Rightarrow> js_string option \<Rightarrow> zod_issue list + js_string option" where
  "image_schema newURL val =
     (case val of None \<Rightarrow> Inr (empty_to_null None)
      | Some s \<Rightarrow> if newURL s then Inr (empty_to_null (Some s))
                  else Inl [Issue invalid_string ''image'' None])"

definition issues_of :: "zod_issue list + 'a \<Rightarrow> zod_issue list" where
  "issues_of r = (case r of Inl is \<Rightarrow> is | Inr _ \<Rightarrow> [])"

text \<open>
  \<^verbatim>\<open>speciesSchema = z.object({..})\<close>: every field is parsed, the issues of all
  fields are collected in the order of the fields, and the object is the result only
  when no field has an issue.
\<close>

definition speciesSchema ::
  "(js_string \<Rightarrow> bool) \<Rightarrow> species_form \<Rightarrow> zod_issue list + species_form" where
  "speciesSchema newURL input =
     (case (scientific_name_schema (scientific_name input),
            nullable_string_schema (common_name input),
            kingdom_schema (kingdom input),
            total_population_schema (total_population input),
            image_schema newURL (image input),
            nullable_string_schema (description input)) of
        (Inr sn, Inr cn, Inr k, Inr tp, Inr im, Inr d) \<Rightarrow>
          Inr \<lparr>scientific_name = sn, common_name = cn, kingdom = k,
               total_population = tp, image = im, description = d\<rparr>
      | (sn, cn, k, tp, im, d) \<Rightarrow>
          Inl (issues_of sn @ issues_of cn @ issues_of k @ issues_of tp @ issues_of im
               @ issues_of d))"


section \<open>The species dialog\<close>

subsection \<open>Records, collaborators and effects\<close>

text \<open>
  A species row is the form's six fields together with its identifier and its author;
  \<open>species_form.truncate\<close> of a row is the object the component builds as the form's
  default values.
\<close>

record species = species_form +
  species_id :: int
  author :: js_string

record comment =
  comment_id :: int
  created_at :: js_string
  content :: js_string
  comment_author :: js_string
  comment_species :: int

text \<open>The props of the dialog with comments: \<^verbatim>\<open>{ species, comments, userId }\<close>.\<close>

record props =
  species :: species
  comments :: "comment list"
  userId :: js_string

text \<open>
  What a handler does to the outside is a list of effects, in the order of the source:
  the prompt of \<^verbatim>\<open>window.confirm\<close>, a call to the record store, a refresh of the
  route, a toast, the validation messages shown by the form. The answers of the
  outside (the user's answer to a prompt, the store's error or absence of error) are
  arguments of the handler. A handler runs as one step: what happens while a store
  call is pending is not part of the model.
\<close>

datatype remote_error = PostgrestError js_string

datatype toast_variant = default_variant | destructive

datatype toast = Toast js_string js_string toast_variant

datatype effect =
    WindowConfirm js_string
  | SpeciesUpdate species_form int
  | SpeciesDelete int
  | CommentsInsert js_string js_string int
  | CommentsDelete int
  | RouterRefresh
  | ToastShown toast
  | FormMessages "zod_issue list"

text \<open>
  The state of one dialog: the two \<^verbatim>\<open>useState\<close> cells and the two forms made by
  \<^verbatim>\<open>useForm\<close>. A form object lives as long as the component does; its values
  change when a field's \<open>onChange\<close> runs and when \<open>reset\<close> is called, and its default
  values change only when \<open>reset\<close> is called with new values. The source gives
  \<^verbatim>\<open>useForm\<close> a resolver, default values and a mode, and no
  \<^verbatim>\<open>shouldUnregister\<close>: the values of fields that are not rendered are kept.
\<close>

record dialog =
  isEditing :: bool
  "open" :: bool
  speciesForm :: species_form
  speciesFormDefaults :: species_form
  commentForm :: js_string

definition initial :: "props \<Rightarrow> dialog" where
  "initial p = \<lparr>isEditing = False, open = False,
     speciesForm = species_form.truncate (species p),
     speciesFormDefaults = species_form.truncate (species p),
     commentForm = []\<rparr>"

datatype dialog_state = Closed | Viewing | Editing

definition state_of :: "dialog \<Rightarrow> dialog_state" where
  "state_of s = (if \<not> open s then Closed else if isEditing s then Editing else Viewing)"

subsection \<open>Handlers\<close>

text \<open>
  The handlers \<open>flipEditing\<close>, \<open>onSaveChanges\<close>, \<open>handleOpenChange\<close> and
  \<open>handleCancel\<close> have the same text in species-details-dialog.tsx and in the
  dialog with comments; \<open>handleDelete\<close> and \<open>onPost\<close> exist in the latter only.
\<close>

definition flipEditing :: "dialog \<Rightarrow> dialog" where
  "flipEditing s = s\<lparr>isEditing := \<not> isEditing s\<rparr>"

definition form_reset :: "species_form \<Rightarrow> dialog \<Rightarrow> dialog" where
  "form_reset input s = s\<lparr>speciesForm := input, speciesFormDefaults := input\<rparr>"

definition onSaveChanges ::
  "props \<Rightarrow> dialog \<Rightarrow> species_form \<Rightarrow> remote_error option \<Rightarrow> dialog \<times> effect list" where
  "onSaveChanges p s input error =
     (case error of
        Some (PostgrestError message) \<Rightarrow>
          (s, [SpeciesUpdate input (species_id (species p)),
               ToastShown (Toast (lit ''Something went wrong.'') message destructive)])
      | None \<Rightarrow>
          (form_reset input (s\<lparr>isEditing := False\<rparr>),
           [SpeciesUpdate input (species_id (species p)),
            RouterRefresh,
            ToastShown (Toast (lit ''Species Details Edited!'')
              (lit ''Successfully edited '' @ scientific_name input @ lit ''.'')
              default_variant)]))"

definition handleOpenChange :: "bool \<Rightarrow> dialog \<Rightarrow> dialog \<times> effect list" where
  "handleOpenChange b s = (s\<lparr>isEditing := False, open := b\<rparr>, [])"

definition handleCancel :: "bool \<Rightarrow> dialog \<Rightarrow> dialog \<times> effect list" where
  "handleCancel confirmed s =
     (if \<not> confirmed then (s, [WindowConfirm (lit ''All changes will be discarded.'')])
      else (flipEditing s, [WindowConfirm (lit ''All changes will be discarded.'')]))"

definition handleDelete ::
  "props \<Rightarrow> dialog \<Rightarrow> bool \<Rightarrow> remote_error option \<Rightarrow> dialog \<times> effect list" where
  "handleDelete p s confirmed error =
     (if \<not> confirmed
      then (s, [WindowConfirm (lit ''Are you sure you want to delete this species?'')])
      else (case error of
        Some (PostgrestError message) \<Rightarrow>
          (s, [WindowConfirm (lit ''Are you sure you want to delete this species?''),
               SpeciesDelete (species_id (species p)),
               ToastShown (Toast (lit ''Something went wrong.'') message destructive)])
      | None \<Rightarrow>
          (s\<lparr>open := False\<rparr>,
           [WindowConfirm (lit ''Are you sure you want to delete this species?''),
            SpeciesDelete (species_id (species p)),
            RouterRefresh,
            ToastShown (Toast (lit ''Species Deleted'')
              (lit ''Successfully deleted '' @ scientific_name (species p) @ lit ''.'')
              default_variant)])))"

text \<open>
  \<^verbatim>\<open>content.slice(0, 25).trim() + (content.length > 25 ? "..." : "")\<close>, the excerpt
  of a comment shown in a toast, there between two double quotes (code unit 0x22).
\<close>

definition excerpt :: "js_string \<Rightarrow> js_string" where
  "excerpt c = js_trim (take 25 c) @ (if length c > 25 then lit ''...'' else [])"

definition onPost ::
  "props \<Rightarrow> dialog \<Rightarrow> js_string \<Rightarrow> remote_error option \<Rightarrow> dialog \<times> effect list" where
  "onPost p s input_content error =
     (case error of
        Some (PostgrestError message) \<Rightarrow>
          (s, [CommentsInsert (userId p) input_content (species_id (species p)),
               ToastShown (Toast (lit ''Something went wrong.'') message destructive)])
      | None \<Rightarrow>
          (s\<lparr>commentForm := []\<rparr>,
           [CommentsInsert (userId p) input_content (species_id (species p)),
            RouterRefresh,
            ToastShown (Toast (lit ''Comment Posted!'')
              (lit ''Successfully commented '' @ [0x22] @ excerpt input_content @ [0x22])
              default_variant)]))"

text \<open>
  \<open>handleSubmit\<close> of react-hook-form with the zod resolver: the form's values go
  through the schema; with issues the messages are shown and the handler is not
  called; without, the handler receives the parsed values. The dialog with comments
  imports \<open>speciesSchema\<close> and \<open>kingdoms\<close> from add-species-dialog, which is not
  among the sources; they are taken to be the ones species-details-dialog.tsx defines
  under these names.
\<close>

definition speciesForm_handleSubmit ::
  "(js_string \<Rightarrow> bool) \<Rightarrow> props \<Rightarrow> dialog \<Rightarrow> remote_error option \<Rightarrow> dialog \<times> effect list" where
  "speciesForm_handleSubmit newURL p s error =
     (case speciesSchema newURL (speciesForm s) of
        Inl issues \<Rightarrow> (s, [FormMessages issues])
      | Inr input \<Rightarrow> onSaveChanges p s input error)"

definition commentForm_handleSubmit ::
  "props \<Rightarrow> dialog \<Rightarrow> remote_error option \<Rightarrow> dialog \<times> effect list" where
  "commentForm_handleSubmit p s error =
     (case commentFormSchema (commentForm s) of
        Inl issues \<Rightarrow> (s, [FormMessages issues])
      | Inr input_content \<Rightarrow> onPost p s input_content error)"

text \<open>\<open>handleDelete\<close> of CommentCard (both variants of comment-card.tsx).\<close>

definition CommentCard_handleDelete ::
  "comment \<Rightarrow> bool \<Rightarrow> remote_error option \<Rightarrow> effect list" where
  "CommentCard_handleDelete c confirmed error =
     (if \<not> confirmed
      then [WindowConfirm (lit ''Are you sure you want to delete this comment?'')]
      else (case error of
        Some (PostgrestError message) \<Rightarrow>
          [WindowConfirm (lit ''Are you sure you want to delete this comment?''),
           CommentsDelete (comment_id c),
           ToastShown (Toast (lit ''Something went wrong.'') message destructive)]
      | None \<Rightarrow>
          [WindowConfirm (lit ''Are you sure you want to delete this comment?''),
           CommentsDelete (comment_id c),
           RouterRefresh,
           ToastShown (Toast (lit ''Comment Deleted'')
             (lit ''Successfully deleted '' @ [0x22] @ excerpt (content c) @ [0x22])
             default_variant)]))"


subsection \<open>What is rendered, and the events of the user\<close>

text \<open>
  An event of the user, with the answers of the outside it leads to: the answer to the
  confirmation prompt and the error (or none) of the record store. A click on Delete
  Species leads to two calls of the record store (see \<open>handle\<close>): its second error
  is the answer to the update.
\<close>

datatype ui_event =
    OpenChange bool
  | EditSpecies
  | ChangeScientificName js_string
  | ChangeCommonName js_string
  | ChangeKingdom js_string
  | ChangeTotalPopulation js_string
  | ChangeImage js_string
  | ChangeDescription js_string
  | SaveChanges "remote_error option"
  | Cancel bool
  | DeleteSpecies bool "remote_error option" "remote_error option"
  | ChangeComment js_string
  | Post "remote_error option"
  | DeleteComment comment bool "remote_error option"

text \<open>The delete button of a CommentCard: \<^verbatim>\<open>{userId == comment.author && (..)}\<close>.\<close>

definition CommentCard_renders_delete :: "js_string \<Rightarrow> comment \<Rightarrow> bool" where
  "CommentCard_renders_delete uid c = (uid = comment_author c)"

text \<open>
  The dialog with comments (407 lines): \<open>onOpenChange\<close> is bound on the Dialog itself;
  the content is rendered while the dialog is open, the form with Save Changes, Cancel
  and Delete Species when \<open>isEditing\<close>, else the details with the Edit Species button
  under \<^verbatim>\<open>userId == species.author\<close>, the comment form and the comment cards.
\<close>

fun renders :: "props \<Rightarrow> dialog \<Rightarrow> ui_event \<Rightarrow> bool" where
  "renders p s (OpenChange b) = True"
| "renders p s EditSpecies = (open s \<and> \<not> isEditing s \<and> userId p = author (species p))"
| "renders p s (ChangeComment v) = (open s \<and> \<not> isEditing s)"
| "renders p s (Post e) = (open s \<and> \<not> isEditing s)"
| "renders p s (DeleteComment c b e) =
     (open s \<and> \<not> isEditing s \<and> c \<in> set (comments p)
      \<and> CommentCard_renders_delete (userId p) c)"
| "renders p s ev = (open s \<and> isEditing s)"

text \<open>
  species-details-dialog.tsx (317 lines): the same Dialog and the same form without
  the Delete Species button; the details end with
  \<^verbatim>\<open><Button className="mt-3 w-full" onClick={flipEditing}>Edit Species</Button>\<close>,
  under no condition, and there is neither a comment form nor a comment card.
\<close>

fun renders_without_comments :: "props \<Rightarrow> dialog \<Rightarrow> ui_event \<Rightarrow> bool" where
  "renders_without_comments p s (OpenChange b) = True"
| "renders_without_comments p s EditSpecies = (open s \<and> \<not> isEditing s)"
| "renders_without_comments p s (ChangeComment v) = False"
| "renders_without_comments p s (Post e) = False"
| "renders_without_comments p s (DeleteComment c b e) = False"
| "renders_without_comments p s (DeleteSpecies b e e') = False"
| "renders_without_comments p s ev = (open s \<and> isEditing s)"

text \<open>
  The two functions of the platform the handlers go through: the URL constructor
  (whether it accepts a string) and the reading of a numeric literal.
\<close>

record runtime =
  url_parses :: "js_string \<Rightarrow> bool"
  numeric_literal :: "js_string \<Rightarrow> js_number"

text \<open>
  Both forms are made with \<^verbatim>\<open>mode: "onChange"\<close>: when a field changes, the
  form's values go through the schema and the issues of the changed field are handed
  to the form for display. A field without issue shows nothing.
\<close>

definition show_issues :: "zod_issue list \<Rightarrow> effect list" where
  "show_issues issues = (if issues = [] then [] else [FormMessages issues])"

text \<open>
  The handler bound to each event. The text inputs give the string of the input to
  \<open>field.onChange\<close>; the kingdom select goes through \<^verbatim>\<open>kingdoms.parse(value)\<close>,
  which throws on a string outside the enum; the population input is
  \<^verbatim>\<open>field.onChange(+event.target.value)\<close>.

  The buttons of the edit form: Save Changes has \<^verbatim>\<open>type="submit"\<close>, Cancel has
  \<^verbatim>\<open>type="button"\<close>, and Delete Species has no \<open>type\<close>, which inside a
  \<^verbatim>\<open><form>\<close> makes it a submit button. A click on Delete Species therefore runs
  its \<open>onClick\<close>, \<open>handleDelete\<close>, and then submits the form, which runs
  \<^verbatim>\<open>speciesForm.handleSubmit(onSaveChanges)\<close> on the values of the form. The
  effects are listed handler by handler. The Post button of the comment form has no
  \<open>type\<close> either and submits that form, which is all it is there for.
\<close>

fun handle :: "runtime \<Rightarrow> props \<Rightarrow> dialog \<Rightarrow> ui_event \<Rightarrow> dialog \<times> effect list" where
  "handle rt p s (OpenChange b) = handleOpenChange b s"
| "handle rt p s EditSpecies = (flipEditing s, [])"
| "handle rt p s (ChangeScientificName v) =
     (s\<lparr>speciesForm := (speciesForm s)\<lparr>scientific_name := v\<rparr>\<rparr>,
      show_issues (issues_of (scientific_name_schema v)))"
| "handle rt p s (ChangeCommonName v) =
     (s\<lparr>speciesForm := (speciesForm s)\<lparr>common_name := Some v\<rparr>\<rparr>,
      show_issues (issues_of (nullable_string_schema (Some v))))"
| "handle rt p s (ChangeKingdom v) =
     (if v \<in> set kingdoms
      then (s\<lparr>speciesForm := (speciesForm s)\<lparr>kingdom := v\<rparr>\<rparr>,
            show_issues (issues_of (kingdom_schema v)))
      else (s, []))"
| "handle rt p s (ChangeTotalPopulation v) =
     (s\<lparr>speciesForm := (speciesForm s)
          \<lparr>total_population := Some (unary_plus (numeric_literal rt) v)\<rparr>\<rparr>,
      show_issues (issues_of
        (total_population_schema (Some (unary_plus (numeric_literal rt) v)))))"
| "handle rt p s (ChangeImage v) =
     (s\<lparr>speciesForm := (speciesForm s)\<lparr>image := Some v\<rparr>\<rparr>,
      show_issues (issues_of (image_schema (url_parses rt) (Some v))))"
| "handle rt p s (ChangeDescription v) =
     (s\<lparr>speciesForm := (speciesForm s)\<lparr>description := Some v\<rparr>\<rparr>,
      show_issues (issues_of (nullable_string_schema (Some v))))"
| "handle rt p s (SaveChanges e) = speciesForm_handleSubmit (url_parses rt) p s e"
| "handle rt p s (Cancel b) = handleCancel b s"
| "handle rt p s (DeleteSpecies b e e') =
     (case handleDelete p s b e of (s', es) \<Rightarrow>
        (case speciesForm_handleSubmit (url_parses rt) p s' e' of
           (s'', es') \<Rightarrow> (s'', es @ es')))"
| "handle rt p s (ChangeComment v) =
     (s\<lparr>commentForm := v\<rparr>, show_issues (issues_of (commentFormSchema v)))"
| "handle rt p s (Post e) = commentForm_handleSubmit p s e"
| "handle rt p s (DeleteComment c b e) = (s, CommentCard_handleDelete c b e)"

text \<open>
  One event: its handler runs when the current rendering offers it. A session is a
  list of events; \<open>run\<close> gives the last state and all the effects in order. The first
  argument is the rendering of the variant.
\<close>

definition step ::
  "(props \<Rightarrow> dialog \<Rightarrow> ui_event \<Rightarrow> bool) \<Rightarrow> runtime \<Rightarrow> props \<Rightarrow> dialog \<Rightarrow> ui_event
     \<Rightarrow> dialog \<times> effect list" where
  "step R rt p s ev = (if R p s ev then handle rt p s ev else (s, []))"

fun run ::
  "(props \<Rightarrow> dialog \<Rightarrow> ui_event \<Rightarrow> bool) \<Rightarrow> runtime \<Rightarrow> props \<Rightarrow> dialog \<Rightarrow> ui_event list
     \<Rightarrow> dialog \<times> effect list" where
  "run R rt p s [] = (s, [])"
| "run R rt p s (ev # evs) =
     (case step R rt p s ev of (s', es) \<Rightarrow>
        (case run R rt p s' evs of (s'', es') \<Rightarrow> (s'', es @ es')))"


section \<open>The URL constructor without a base\<close>

text \<open>
  The URL standard's parser, called without a base, strips leading and trailing C0
  controls and spaces, removes tabs and newlines, and then fails in its "no scheme"
  state unless the input starts with an ASCII letter followed by scheme characters up
  to a colon. \<open>hasScheme\<close> is that necessary condition; the theorems about the image
  field hold for every URL constructor that meets it.
\<close>

definition isC0ControlOrSpace :: "code_unit \<Rightarrow> bool" where
  "isC0ControlOrSpace c \<longleftrightarrow> c \<le> 0x20"

definition isTabOrNewline :: "code_unit \<Rightarrow> bool" where
  "isTabOrNewline c \<longleftrightarrow> c \<in> set [0x09, 0x0A, 0x0D]"

definition isASCIIAlpha :: "code_unit \<Rightarrow> bool" where
  "isASCIIAlpha c \<longleftrightarrow> (0x41 \<le> c \<and> c \<le> 0x5A) \<or> (0x61 \<le> c \<and> c \<le> 0x7A)"

definition isSchemeChar :: "code_unit \<Rightarrow> bool" where
  "isSchemeChar c \<longleftrightarrow>
     isASCIIAlpha c \<or> (0x30 \<le> c \<and> c \<le> 0x39) \<or> c \<in> set [0x2B, 0x2D, 0x2E]"

definition hasScheme :: "js_string \<Rightarrow> bool" where
  "hasScheme s =
     (case filter (\<lambda>c. \<not> isTabOrNewline c)
             (rev (dropWhile isC0ControlOrSpace (rev (dropWhile isC0ControlOrSpace s)))) of
        [] \<Rightarrow> False
      | c # cs \<Rightarrow> isASCIIAlpha c \<and>
          (case dropWhile isSchemeChar cs of [] \<Rightarrow> False | d # _ \<Rightarrow> d = 0x3A))"


section \<open>Example values\<close>

text \<open>
  A species row owned by user \<open>u1\<close>, the props of its owner and of another user, a
  state in which the owner is editing, and a runtime whose URL constructor accepts
  the strings with a scheme and whose numeric literals are the unsigned decimal ones.
\<close>

definition guinea_pig :: species where
  "guinea_pig = \<lparr>scientific_name = lit ''Cavia porcellus'',
     common_name = Some (lit ''Guinea pig''), kingdom = lit ''Animalia'',
     total_population = Some (Finite 300000), image = None, description = None,
     species_id = 7, author = lit ''u1''\<rparr>"

definition owner_props :: props where
  "owner_props = \<lparr>species = guinea_pig, comments = [], userId = lit ''u1''\<rparr>"

definition visitor_props :: props where
  "visitor_props = \<lparr>species = guinea_pig, comments = [], userId = lit ''u2''\<rparr>"

definition owner_editing :: dialog where
  "owner_editing = (initial owner_props)\<lparr>open := True, isEditing := True\<rparr>"

definition owner_viewing :: dialog where
  "owner_viewing = (initial owner_props)\<lparr>open := True\<rparr>"

definition decimal_literal :: "js_string \<Rightarrow> js_number" where
  "decimal_literal s =
     (if s \<noteq> [] \<and> list_all (\<lambda>c. 0x30 \<le> c \<and> c \<le> 0x39) s
      then Finite (of_nat (foldl (\<lambda>n c. 10 * n + (unat c - 48)) 0 s))
      else NaN)"

definition example_runtime :: runtime where
  "example_runtime = \<lparr>url_parses = hasScheme, numeric_literal = decimal_literal\<rparr>"


section \<open>Facts about strings and sessions\<close>

lemma js_trim_Nil_iff: "js_trim s = [] \<longleftrightarrow> list_all isWhiteSpace s"
proof -
  have "dropWhile isWhiteSpace s \<noteq> [] \<Longrightarrow> \<not> isWhiteSpace (hd (dropWhile isWhiteSpace s))"
    by (rule hd_dropWhile)
  then have "(\<forall>x\<in>set (dropWhile isWhiteSpace s). isWhiteSpace x)
      \<longleftrightarrow> dropWhile isWhiteSpace s = []"
    by (metis hd_in_set empty_iff list.set(1))
  then show ?thesis
    by (simp add: js_trim_def list_all_iff)
qed

lemma length_js_trim: "length (js_trim s) \<le> length s"
  unfolding js_trim_def
  by (metis length_rev length_dropWhile_le le_trans)

lemma dropWhile_replicate_append:
  "P x \<Longrightarrow> dropWhile P (replicate n x @ ys) = dropWhile P ys"
  by (induction n) simp_all

lemma run_append:
  "run R rt p s (xs @ ys) =
     (case run R rt p s xs of (s', es) \<Rightarrow>
        (case run R rt p s' ys of (s'', es') \<Rightarrow> (s'', es @ es')))"
  by (induction xs arbitrary: s) (simp_all split: prod.splits)


section \<open>The ownership gate\<close>

text \<open>
  In the dialog with comments a user who is not the author never gets \<open>isEditing\<close>
  set, and so never sees the form: no session of such a user updates or deletes the
  species, and a comment is deleted only by a card whose comment the user wrote.
\<close>

lemma step_viewer_stays:
  assumes "userId p \<noteq> author (species p)" and "\<not> isEditing s"
  shows "\<not> isEditing (fst (step renders rt p s ev))"
  using assms
  by (cases ev)
     (auto simp: step_def handleOpenChange_def flipEditing_def commentForm_handleSubmit_def
        onPost_def show_issues_def split: sum.splits option.splits remote_error.splits)

lemma step_viewer_effects:
  assumes "\<not> isEditing s"
  shows "SpeciesDelete i \<notin> set (snd (step renders rt p s ev))"
    and "SpeciesUpdate f i \<notin> set (snd (step renders rt p s ev))"
  using assms
  by (cases ev;
     auto simp: step_def handleOpenChange_def flipEditing_def commentForm_handleSubmit_def
        onPost_def CommentCard_handleDelete_def show_issues_def
        split: sum.splits option.splits remote_error.splits)+

lemma step_comment_delete:
  assumes "CommentsDelete i \<in> set (snd (step renders rt p s ev))"
  shows "\<exists>c \<in> set (comments p). comment_id c = i \<and> comment_author c = userId p"
  using assms
  by (cases ev)
     (auto simp: step_def handleOpenChange_def flipEditing_def commentForm_handleSubmit_def
        onPost_def CommentCard_handleDelete_def CommentCard_renders_delete_def
        speciesForm_handleSubmit_def onSaveChanges_def handleCancel_def handleDelete_def
        show_issues_def
        split: sum.splits option.splits remote_error.splits if_splits prod.splits)

lemma run_viewer_stays:
  assumes "userId p \<noteq> author (species p)" and "\<not> isEditing s"
  shows "\<not> isEditing (fst (run renders rt p s evs))
     \<and> SpeciesDelete i \<notin> set (snd (run renders rt p s evs))
     \<and> SpeciesUpdate f i \<notin> set (snd (run renders rt p s evs))"
  using assms(2)
proof (induction evs arbitrary: s)
  case Nil
  then show ?case by simp
next
  case (Cons ev evs)
  obtain s' es where st: "step renders rt p s ev = (s', es)"
    by (cases "step renders rt p s ev")
  obtain s'' es' where rn: "run renders rt p s' evs = (s'', es')"
    by (cases "run renders rt p s' evs")
  have "\<not> isEditing s'"
    using step_viewer_stays [OF assms(1) Cons.prems, of rt ev] st by simp
  from Cons.IH [OF this] rn
  have ih: "\<not> isEditing s'' \<and> SpeciesDelete i \<notin> set es' \<and> SpeciesUpdate f i \<notin> set es'"
    by simp
  have "SpeciesDelete i \<notin> set es \<and> SpeciesUpdate f i \<notin> set es"
    using step_viewer_effects [OF Cons.prems, where rt=rt and p=p and ev=ev] st by simp
  with ih st rn show ?case by simp
qed

lemma run_comment_delete:
  "CommentsDelete i \<in> set (snd (run renders rt p s evs)) \<Longrightarrow>
     \<exists>c \<in> set (comments p). comment_id c = i \<and> comment_author c = userId p"
proof (induction evs arbitrary: s)
  case Nil
  then show ?case by simp
next
  case (Cons ev evs)
  obtain s' es where st: "step renders rt p s ev = (s', es)"
    by (cases "step renders rt p s ev")
  obtain s'' es' where rn: "run renders rt p s' evs = (s'', es')"
    by (cases "run renders rt p s' evs")
  from Cons.prems st rn have "CommentsDelete i \<in> set es \<or> CommentsDelete i \<in> set es'"
    by simp
  then show ?case
  proof
    assume "CommentsDelete i \<in> set es"
    then show ?thesis using step_comment_delete [of i rt p s ev] st by simp
  next
    assume "CommentsDelete i \<in> set es'"
    then show ?thesis using Cons.IH [of s'] rn by simp
  qed
qed

lemma viewer_never_edits:
  assumes "userId p \<noteq> author (species p)"
  shows "state_of (fst (run renders rt p (initial p) evs)) \<noteq> Editing
     \<and> SpeciesDelete i \<notin> set (snd (run renders rt p (initial p) evs))
     \<and> SpeciesUpdate f i \<notin> set (snd (run renders rt p (initial p) evs))"
proof -
  have "\<not> isEditing (initial p)" by (simp add: initial_def)
  from run_viewer_stays [OF assms this, of rt evs i f] show ?thesis
    by (simp add: state_of_def)
qed

text \<open>
  C1. The edit and delete affordances are offered only to the author of the record.
  The dialog with comments and the comment cards keep that gate (lemmas above);
  species-details-dialog.tsx receives \<open>userId\<close> and renders Edit Species without
  looking at it. For the user \<open>u2\<close> and a species of author \<open>u1\<close>, opening that dialog
  and pressing Edit Species reaches \<open>Editing\<close>, where the same two events leave the
  dialog with comments in \<open>Viewing\<close>.
\<close>

theorem non_owner_reaches_Editing:
  "userId visitor_props \<noteq> author (species visitor_props)
   \<and> state_of (fst (run renders_without_comments example_runtime visitor_props
        (initial visitor_props) [OpenChange True, EditSpecies])) = Editing
   \<and> state_of (fst (run renders example_runtime visitor_props
        (initial visitor_props) [OpenChange True, EditSpecies])) = Viewing"
  by (simp add: visitor_props_def guinea_pig_def lit_def initial_def step_def
      handleOpenChange_def flipEditing_def state_of_def)


section \<open>Cancelling an edit\<close>

text \<open>
  Cancel in general: the prompt is the only effect; a no leaves the state as it is, a
  yes changes \<open>isEditing\<close> and nothing else.
\<close>

lemma handleCancel_paths:
  "handleCancel False s = (s, [WindowConfirm (lit ''All changes will be discarded.'')])
   \<and> handleCancel True s
       = (s\<lparr>isEditing := \<not> isEditing s\<rparr>,
          [WindowConfirm (lit ''All changes will be discarded.'')])"
  by (simp add: handleCancel_def flipEditing_def)

text \<open>
  C2. Cancel asks "All changes will be discarded." and, on yes, only flips
  \<open>isEditing\<close>: the form is not reset. The owner opens the dialog, presses Edit
  Species, types the scientific name "Cavia X" and cancels with yes: the dialog is in
  \<open>Viewing\<close>, the form's default is still "Cavia porcellus", and the form still holds
  "Cavia X", also after Edit Species is pressed again. The prompt is the session's
  only effect.
\<close>

theorem cancel_keeps_edits:
  "state_of (fst (run renders example_runtime owner_props (initial owner_props)
      [OpenChange True, EditSpecies, ChangeScientificName (lit ''Cavia X''), Cancel True]))
     = Viewing
   \<and> scientific_name (speciesFormDefaults (fst (run renders example_runtime owner_props
        (initial owner_props)
        [OpenChange True, EditSpecies, ChangeScientificName (lit ''Cavia X''), Cancel True])))
     = lit ''Cavia porcellus''
   \<and> scientific_name (speciesForm (fst (run renders example_runtime owner_props
        (initial owner_props)
        [OpenChange True, EditSpecies, ChangeScientificName (lit ''Cavia X''), Cancel True])))
     = lit ''Cavia X''
   \<and> scientific_name (speciesForm (fst (run renders example_runtime owner_props
        (initial owner_props)
        [OpenChange True, EditSpecies, ChangeScientificName (lit ''Cavia X''), Cancel True,
         EditSpecies])))
     = lit ''Cavia X''
   \<and> snd (run renders example_runtime owner_props (initial owner_props)
        [OpenChange True, EditSpecies, ChangeScientificName (lit ''Cavia X''), Cancel True])
     = [WindowConfirm (lit ''All changes will be discarded.'')]"
  by (simp add: owner_props_def guinea_pig_def lit_def initial_def step_def
      handleOpenChange_def flipEditing_def state_of_def handleCancel_def
      species_form.truncate_def show_issues_def issues_of_def scientific_name_schema_def
      js_trim_def isWhiteSpace_def Let_def)


section \<open>Validation of a comment\<close>

text \<open>
  C3, as the code has it. A comment that is empty or holds white space only is
  rejected with the minimum-length issue or the white-space issue. A comment of more
  than 150 code units as entered is rejected with the maximum-length issue; that
  covers every comment whose trimmed length exceeds 150. A comment with a character
  that is not white space and of 1 to 150 code units as entered is accepted, and the
  result is the trimmed comment, again of 1 to 150 code units.
\<close>

theorem commentFormSchema_raw_length:
  "(list_all isWhiteSpace s \<longrightarrow>
      (\<exists>issues. commentFormSchema s = Inl issues \<and>
         (Issue too_small ''content'' (Some ''Comment must be at least 1 character.'')
            \<in> set issues
          \<or> Issue custom ''content''
               (Some ''String cannot be empty or contain only whitespace'') \<in> set issues)))
   \<and> (150 < length s \<longrightarrow>
      (\<exists>issues. commentFormSchema s = Inl issues \<and>
         Issue too_big ''content'' (Some ''Comment must not be longer than 150 characters.'')
           \<in> set issues))
   \<and> (150 < length (js_trim s) \<longrightarrow> 150 < length s)
   \<and> (\<not> list_all isWhiteSpace s \<and> 1 \<le> length s \<and> length s \<le> 150 \<longrightarrow>
      commentFormSchema s = Inr (js_trim s)
      \<and> 1 \<le> length (js_trim s) \<and> length (js_trim s) \<le> 150)"
proof (intro conjI impI)
  assume "list_all isWhiteSpace s"
  then have "js_trim s = []" by (simp add: js_trim_Nil_iff)
  then show "\<exists>issues. commentFormSchema s = Inl issues \<and>
         (Issue too_small ''content'' (Some ''Comment must be at least 1 character.'')
            \<in> set issues
          \<or> Issue custom ''content''
               (Some ''String cannot be empty or contain only whitespace'') \<in> set issues)"
    by (simp add: commentFormSchema_def Let_def)
next
  assume "150 < length s"
  then show "\<exists>issues. commentFormSchema s = Inl issues \<and>
         Issue too_big ''content'' (Some ''Comment must not be longer than 150 characters.'')
           \<in> set issues"
    by (simp add: commentFormSchema_def Let_def)
next
  assume "150 < length (js_trim s)"
  then show "150 < length s" using length_js_trim [of s] by linarith
next
  assume a: "\<not> list_all isWhiteSpace s \<and> 1 \<le> length s \<and> length s \<le> 150"
  then have n: "js_trim s \<noteq> []" by (simp add: js_trim_Nil_iff)
  with a show "commentFormSchema s = Inr (js_trim s)"
    by (auto simp add: commentFormSchema_def Let_def)
  from n show "1 \<le> length (js_trim s)" by (cases "js_trim s") simp_all
  from a show "length (js_trim s) \<le> 150" using length_js_trim [of s] by linarith
qed

text \<open>
  C3 at three inputs: two spaces, 151 letters \<open>a\<close>, and "Hello".
\<close>

theorem commentFormSchema_raw_length_witness:
  "list_all isWhiteSpace (lit ''  '') \<and> 150 < length (replicate 151 (0x61 :: code_unit))
   \<and> \<not> list_all isWhiteSpace (lit ''Hello'')
   \<and> commentFormSchema (lit ''Hello'') = Inr (lit ''Hello'')
   \<and> (\<exists>issues. commentFormSchema (lit ''  '') = Inl issues)
   \<and> (\<exists>issues. commentFormSchema (replicate 151 0x61) = Inl issues)"
proof -
  have 1: "list_all isWhiteSpace (lit ''  '')"
    by (simp add: lit_def isWhiteSpace_def)
  have 2: "150 < length (replicate 151 (0x61 :: code_unit))"
    by simp
  have 3: "\<not> list_all isWhiteSpace (lit ''Hello'') \<and> 1 \<le> length (lit ''Hello'')
      \<and> length (lit ''Hello'') \<le> 150"
    by (simp add: lit_def isWhiteSpace_def)
  have 4: "js_trim (lit ''Hello'') = lit ''Hello''"
    by (simp add: js_trim_def lit_def isWhiteSpace_def)
  show ?thesis
    using 1 2 3 4 commentFormSchema_raw_length [of "lit ''  ''"]
      commentFormSchema_raw_length [of "replicate 151 0x61"]
      commentFormSchema_raw_length [of "lit ''Hello''"]
    by metis
qed

text \<open>
  C3 stated with the trimmed length fails: the letter \<open>a\<close> followed by 150 spaces is
  not white space only and its trimmed length is 1, yet it is rejected with the
  maximum-length issue, because \<open>max(150)\<close> counts the 151 code units entered.
\<close>

theorem commentFormSchema_post_trim_counterexample:
  "length (js_trim (0x61 # replicate 150 0x20)) = 1
   \<and> \<not> list_all isWhiteSpace (0x61 # replicate 150 0x20)
   \<and> commentFormSchema (0x61 # replicate 150 0x20) =
       Inl [Issue too_big ''content''
              (Some ''Comment must not be longer than 150 characters.'')]"
proof -
  have ws: "isWhiteSpace 0x20" by (simp add: isWhiteSpace_def)
  have a: "\<not> isWhiteSpace 0x61" by (simp add: isWhiteSpace_def)
  have t: "js_trim (0x61 # replicate 150 0x20) = [0x61]"
    using ws a by (simp add: js_trim_def dropWhile_replicate_append)
  show ?thesis using a t by (simp add: commentFormSchema_def Let_def)
qed


section \<open>Validation of the species form\<close>

lemma isWhiteSpace_not_alpha: "isWhiteSpace c \<Longrightarrow> \<not> isASCIIAlpha c"
  unfolding isWhiteSpace_def isASCIIAlpha_def
  by (auto simp: word_le_nat_alt)

lemma white_space_no_scheme:
  assumes "list_all isWhiteSpace s"
  shows "\<not> hasScheme s"
proof -
  let ?t = "filter (\<lambda>c. \<not> isTabOrNewline c)
             (rev (dropWhile isC0ControlOrSpace (rev (dropWhile isC0ControlOrSpace s))))"
  have sub: "set ?t \<subseteq> set s"
    by (auto dest!: set_dropWhileD)
  show ?thesis
  proof (cases ?t)
    case Nil
    then show ?thesis by (simp add: hasScheme_def)
  next
    case (Cons c cs)
    then have "c \<in> set ?t" by simp
    with sub have "c \<in> set s" by blast
    with assms have "isWhiteSpace c" by (simp add: list_all_iff)
    then have "\<not> isASCIIAlpha c" by (rule isWhiteSpace_not_alpha)
    with Cons show ?thesis by (simp add: hasScheme_def)
  qed
qed

text \<open>When some field has an issue, the object's result is the issues of all fields.\<close>

lemma speciesSchema_Inl:
  "issues_of (scientific_name_schema (scientific_name f)) @
   issues_of (nullable_string_schema (common_name f)) @
   issues_of (kingdom_schema (kingdom f)) @
   issues_of (total_population_schema (total_population f)) @
   issues_of (image_schema u (image f)) @
   issues_of (nullable_string_schema (description f)) \<noteq> []
   \<Longrightarrow> speciesSchema u f = Inl (issues_of (scientific_name_schema (scientific_name f)) @
   issues_of (nullable_string_schema (common_name f)) @
   issues_of (kingdom_schema (kingdom f)) @
   issues_of (total_population_schema (total_population f)) @
   issues_of (image_schema u (image f)) @
   issues_of (nullable_string_schema (description f)))"
  by (simp add: speciesSchema_def issues_of_def split: sum.splits)

lemma speciesSchema_has_issue:
  assumes "x \<in> set (issues_of (total_population_schema (total_population f)))
        \<or> x \<in> set (issues_of (image_schema u (image f)))"
  shows "\<exists>issues. speciesSchema u f = Inl issues \<and> x \<in> set issues"
proof -
  let ?all = "issues_of (scientific_name_schema (scientific_name f)) @
   issues_of (nullable_string_schema (common_name f)) @
   issues_of (kingdom_schema (kingdom f)) @
   issues_of (total_population_schema (total_population f)) @
   issues_of (image_schema u (image f)) @
   issues_of (nullable_string_schema (description f))"
  from assms have in_all: "x \<in> set ?all" by auto
  then have "?all \<noteq> []" by (metis empty_iff list.set(1))
  then have "speciesSchema u f = Inl ?all" by (rule speciesSchema_Inl)
  with in_all show ?thesis by blast
qed

lemma guinea_pig_valid:
  "speciesSchema hasScheme (species_form.truncate guinea_pig)
     = Inr (species_form.truncate guinea_pig)"
  by (simp add: speciesSchema_def guinea_pig_def species_form.truncate_def lit_def
      scientific_name_schema_def nullable_string_schema_def kingdom_schema_def kingdoms_def
      total_population_schema_def image_schema_def empty_to_null_def js_trim_def
      isWhiteSpace_def isInteger_def js_gt_def js_ge_def Let_def)

lemma zero_population_issue:
  "Issue too_small ''total_population'' None
     \<in> set (issues_of (total_population_schema (Some (Finite 0))))"
  by (simp add: total_population_schema_def issues_of_def isInteger_def js_gt_def js_ge_def)

lemma zero_population_issues:
  "issues_of (total_population_schema (Some (Finite 0)))
     = [Issue too_small ''total_population'' None, Issue too_small ''total_population'' None]"
  by (simp add: total_population_schema_def issues_of_def isInteger_def js_gt_def js_ge_def)

text \<open>
  C4. The image field: only \<^verbatim>\<open>null\<close> is normalised to no value. A string goes
  through \<open>url()\<close> before the transform that the source's comment describes
  ("Transform empty string or only whitespace input to null"), so with a URL
  constructor that needs a scheme, the empty string and every string of white space
  are rejected with the invalid-URL issue, and the whole form with them.
\<close>

theorem image_schema_rejects_blank:
  assumes "\<forall>t. newURL t \<longrightarrow> hasScheme t" and "list_all isWhiteSpace s"
  shows "image_schema newURL (Some s) = Inl [Issue invalid_string ''image'' None]
     \<and> (\<exists>issues. speciesSchema newURL (f\<lparr>image := Some s\<rparr>) = Inl issues
           \<and> Issue invalid_string ''image'' None \<in> set issues)
     \<and> image_schema newURL None = Inr None"
proof -
  from assms have "\<not> newURL s" using white_space_no_scheme by blast
  then have 1: "image_schema newURL (Some s) = Inl [Issue invalid_string ''image'' None]"
    by (simp add: image_schema_def)
  then have "Issue invalid_string ''image'' None
      \<in> set (issues_of (image_schema newURL (image (f\<lparr>image := Some s\<rparr>))))"
    by (simp add: issues_of_def)
  then have 2: "\<exists>issues. speciesSchema newURL (f\<lparr>image := Some s\<rparr>) = Inl issues
           \<and> Issue invalid_string ''image'' None \<in> set issues"
    using speciesSchema_has_issue by blast
  have 3: "image_schema newURL None = Inr None"
    by (simp add: image_schema_def empty_to_null_def)
  from 1 2 3 show ?thesis by blast
qed

text \<open>
  C4 at the empty string, in the form of the example species, with \<open>hasScheme\<close>
  itself as the URL constructor.
\<close>

theorem image_schema_rejects_blank_witness:
  "list_all isWhiteSpace []
   \<and> image_schema hasScheme (Some []) = Inl [Issue invalid_string ''image'' None]
   \<and> (\<exists>issues. speciesSchema hasScheme
         ((species_form.truncate guinea_pig)\<lparr>image := Some []\<rparr>) = Inl issues)"
proof -
  have h: "\<forall>t. hasScheme t \<longrightarrow> hasScheme t" by simp
  have w: "list_all isWhiteSpace []" by simp
  from image_schema_rejects_blank [OF h w, of "species_form.truncate guinea_pig"] h w
  show ?thesis by blast
qed

text \<open>
  C9. A form whose total_population is 0 does not pass validation: Save Changes shows
  the form's messages, among them the one of the population, leaves the state as it
  is and calls nothing. Emptying the population input stores 0 (unary plus on the
  empty string) and shows the two issues of \<open>positive()\<close> and \<open>min(1)\<close> at once, so
  emptying it and saving never reaches the record store. Both dialogs.
\<close>

theorem zero_population_blocks_save:
  "(state_of s = Editing \<and> total_population (speciesForm s) = Some (Finite 0) \<longrightarrow>
      (\<exists>issues. Issue too_small ''total_population'' None \<in> set issues
         \<and> step renders rt p s (SaveChanges e) = (s, [FormMessages issues])
         \<and> step renders_without_comments rt p s (SaveChanges e)
             = (s, [FormMessages issues])))
   \<and> (state_of s = Editing \<and> js_trim v = [] \<longrightarrow>
        step renders rt p s (ChangeTotalPopulation v)
          = (s\<lparr>speciesForm := (speciesForm s)\<lparr>total_population := Some (Finite 0)\<rparr>\<rparr>,
             [FormMessages [Issue too_small ''total_population'' None,
                Issue too_small ''total_population'' None]])
        \<and> step renders_without_comments rt p s (ChangeTotalPopulation v)
          = (s\<lparr>speciesForm := (speciesForm s)\<lparr>total_population := Some (Finite 0)\<rparr>\<rparr>,
             [FormMessages [Issue too_small ''total_population'' None,
                Issue too_small ''total_population'' None]])
        \<and> (\<forall>f i. SpeciesUpdate f i \<notin> set (snd (run renders rt p s
              [ChangeTotalPopulation v, SaveChanges e])))
        \<and> (\<forall>f i. SpeciesUpdate f i \<notin> set (snd (run renders_without_comments rt p s
              [ChangeTotalPopulation v, SaveChanges e]))))"
proof (intro conjI impI)
  assume a: "state_of s = Editing \<and> total_population (speciesForm s) = Some (Finite 0)"
  then have ed: "open s \<and> isEditing s" by (auto simp: state_of_def split: if_splits)
  from a have "Issue too_small ''total_population'' None
     \<in> set (issues_of (total_population_schema (total_population (speciesForm s))))"
    using zero_population_issue by simp
  then obtain issues where i: "speciesSchema (url_parses rt) (speciesForm s) = Inl issues"
    and m: "Issue too_small ''total_population'' None \<in> set issues"
    using speciesSchema_has_issue by blast
  from ed i have "step renders rt p s (SaveChanges e) = (s, [FormMessages issues])"
    "step renders_without_comments rt p s (SaveChanges e) = (s, [FormMessages issues])"
    by (simp_all add: step_def speciesForm_handleSubmit_def)
  with m show "\<exists>issues. Issue too_small ''total_population'' None \<in> set issues
         \<and> step renders rt p s (SaveChanges e) = (s, [FormMessages issues])
         \<and> step renders_without_comments rt p s (SaveChanges e)
             = (s, [FormMessages issues])"
    by blast
next
  assume a: "state_of s = Editing \<and> js_trim v = []"
  then have ed: "open s \<and> isEditing s" by (auto simp: state_of_def split: if_splits)
  let ?s' = "s\<lparr>speciesForm := (speciesForm s)\<lparr>total_population := Some (Finite 0)\<rparr>\<rparr>"
  let ?m = "[FormMessages [Issue too_small ''total_population'' None,
                Issue too_small ''total_population'' None]]"
  from a ed show c1: "step renders rt p s (ChangeTotalPopulation v) = (?s', ?m)"
    by (simp add: step_def unary_plus_def zero_population_issues show_issues_def)
  from a ed show c2:
    "step renders_without_comments rt p s (ChangeTotalPopulation v) = (?s', ?m)"
    by (simp add: step_def unary_plus_def zero_population_issues show_issues_def)
  have "Issue too_small ''total_population'' None
     \<in> set (issues_of (total_population_schema (total_population (speciesForm ?s'))))"
    using zero_population_issue by simp
  then obtain issues where i: "speciesSchema (url_parses rt) (speciesForm ?s') = Inl issues"
    using speciesSchema_has_issue by blast
  from ed i have s2: "step renders rt p ?s' (SaveChanges e) = (?s', [FormMessages issues])"
    "step renders_without_comments rt p ?s' (SaveChanges e) = (?s', [FormMessages issues])"
    by (simp_all add: step_def speciesForm_handleSubmit_def)
  from c1 s2 show "\<forall>f i. SpeciesUpdate f i \<notin> set (snd (run renders rt p s
              [ChangeTotalPopulation v, SaveChanges e]))"
    by simp
  from c2 s2 show "\<forall>f i. SpeciesUpdate f i \<notin> set (snd (run renders_without_comments rt p s
              [ChangeTotalPopulation v, SaveChanges e]))"
    by simp
qed

text \<open>
  C9 for the owner editing the example species: with the population set to 0, and
  with the population input emptied.
\<close>

theorem zero_population_blocks_save_witness:
  "state_of (owner_editing\<lparr>speciesForm :=
       (speciesForm owner_editing)\<lparr>total_population := Some (Finite 0)\<rparr>\<rparr>) = Editing
   \<and> total_population (speciesForm (owner_editing\<lparr>speciesForm :=
       (speciesForm owner_editing)\<lparr>total_population := Some (Finite 0)\<rparr>\<rparr>)) = Some (Finite 0)
   \<and> state_of owner_editing = Editing \<and> js_trim [] = []
   \<and> (\<exists>issues. step renders example_runtime owner_props
          (owner_editing\<lparr>speciesForm :=
             (speciesForm owner_editing)\<lparr>total_population := Some (Finite 0)\<rparr>\<rparr>)
          (SaveChanges None)
        = (owner_editing\<lparr>speciesForm :=
             (speciesForm owner_editing)\<lparr>total_population := Some (Finite 0)\<rparr>\<rparr>,
           [FormMessages issues]))
   \<and> (\<forall>f i. SpeciesUpdate f i \<notin> set (snd (run renders example_runtime owner_props
          owner_editing [ChangeTotalPopulation [], SaveChanges None])))"
proof -
  have 1: "state_of (owner_editing\<lparr>speciesForm :=
       (speciesForm owner_editing)\<lparr>total_population := Some (Finite 0)\<rparr>\<rparr>) = Editing
   \<and> total_population (speciesForm (owner_editing\<lparr>speciesForm :=
       (speciesForm owner_editing)\<lparr>total_population := Some (Finite 0)\<rparr>\<rparr>)) = Some (Finite 0)"
    by (simp add: owner_editing_def state_of_def initial_def)
  have 2: "state_of owner_editing = Editing \<and> js_trim [] = []"
    by (simp add: owner_editing_def state_of_def initial_def js_trim_def)
  from 1 2
    zero_population_blocks_save [where s = "owner_editing\<lparr>speciesForm :=
       (speciesForm owner_editing)\<lparr>total_population := Some (Finite 0)\<rparr>\<rparr>"
      and rt = example_runtime and p = owner_props and e = None and v = "[]"]
    zero_population_blocks_save [where s = owner_editing and rt = example_runtime
      and p = owner_props and e = None and v = "[]"]
  show ?thesis by blast
qed


section \<open>Saving\<close>

text \<open>
  C5. A save in \<open>Editing\<close> whose form passes validation and whose update the record
  store answers with an error: the state after the step is the state before it (still
  \<open>Editing\<close>, the form's values and default values as they were), and the effects are
  the update call and one destructive toast whose description is the store's message.
  Both dialogs.
\<close>

theorem failed_save_keeps_state:
  assumes "state_of s = Editing"
    and "speciesSchema (url_parses rt) (speciesForm s) = Inr input"
  shows "step renders rt p s (SaveChanges (Some (PostgrestError message))) =
           (s, [SpeciesUpdate input (species_id (species p)),
                ToastShown (Toast (lit ''Something went wrong.'') message destructive)])
       \<and> step renders_without_comments rt p s
           (SaveChanges (Some (PostgrestError message))) =
           (s, [SpeciesUpdate input (species_id (species p)),
                ToastShown (Toast (lit ''Something went wrong.'') message destructive)])"
proof -
  from assms(1) have "open s \<and> isEditing s" by (auto simp: state_of_def split: if_splits)
  with assms(2) show ?thesis
    by (simp add: step_def speciesForm_handleSubmit_def onSaveChanges_def)
qed

text \<open>C5 for the owner editing the example species, the store answering "permission denied".\<close>

theorem failed_save_keeps_state_witness:
  "state_of owner_editing = Editing
   \<and> speciesSchema (url_parses example_runtime) (speciesForm owner_editing)
       = Inr (species_form.truncate guinea_pig)
   \<and> step renders example_runtime owner_props owner_editing
        (SaveChanges (Some (PostgrestError (lit ''permission denied'')))) =
       (owner_editing, [SpeciesUpdate (species_form.truncate guinea_pig) 7,
          ToastShown (Toast (lit ''Something went wrong.'') (lit ''permission denied'')
            destructive)])"
proof -
  have 1: "state_of owner_editing = Editing"
    by (simp add: owner_editing_def state_of_def initial_def)
  have 2: "speciesSchema (url_parses example_runtime) (speciesForm owner_editing)
       = Inr (species_form.truncate guinea_pig)"
    using guinea_pig_valid
    by (simp add: example_runtime_def owner_editing_def initial_def owner_props_def)
  have 3: "species_id (species owner_props) = 7"
    by (simp add: owner_props_def guinea_pig_def)
  from failed_save_keeps_state [OF 1 2, of owner_props "lit ''permission denied''"] 1 2 3
  show ?thesis by simp
qed


section \<open>Deleting the species\<close>

text \<open>
  What the form's submission adds to a click never touches \<open>open\<close> and never calls
  the delete of the record store.
\<close>

lemma handleSubmit_keeps_open:
  "open (fst (speciesForm_handleSubmit u p s e)) = open s
   \<and> SpeciesDelete i \<notin> set (snd (speciesForm_handleSubmit u p s e))"
  by (simp add: speciesForm_handleSubmit_def onSaveChanges_def form_reset_def
      split: sum.splits option.splits remote_error.splits)

text \<open>
  The click on Delete Species also submits the form: the owner editing the example
  species who answers no to the prompt still sends the update, and with the store's
  success the dialog leaves \<open>Editing\<close>.
\<close>

lemma declined_delete_still_saves:
  "state_of (fst (step renders example_runtime owner_props owner_editing
      (DeleteSpecies False None None))) = Viewing
   \<and> snd (step renders example_runtime owner_props owner_editing
        (DeleteSpecies False None None))
     = [WindowConfirm (lit ''Are you sure you want to delete this species?''),
        SpeciesUpdate (species_form.truncate guinea_pig) 7,
        RouterRefresh,
        ToastShown (Toast (lit ''Species Details Edited!'')
          (lit ''Successfully edited '' @ lit ''Cavia porcellus'' @ lit ''.'')
          default_variant)]"
proof -
  have v: "speciesSchema (url_parses example_runtime) (speciesForm owner_editing)
       = Inr (species_form.truncate guinea_pig)"
    using guinea_pig_valid
    by (simp add: example_runtime_def owner_editing_def initial_def owner_props_def)
  have n: "scientific_name (species_form.truncate guinea_pig) = lit ''Cavia porcellus''"
    by (simp add: species_form.truncate_def guinea_pig_def)
  have i: "species_id (species owner_props) = 7"
    by (simp add: owner_props_def guinea_pig_def)
  have r: "renders owner_props owner_editing (DeleteSpecies False None None)"
    by (simp add: owner_editing_def initial_def)
  have o: "open owner_editing"
    by (simp add: owner_editing_def initial_def)
  from v n i r o show ?thesis
    by (simp add: step_def handleDelete_def speciesForm_handleSubmit_def onSaveChanges_def
        form_reset_def state_of_def)
qed

text \<open>
  C6, as the code has it by design. Delete Species is rendered in \<open>Editing\<close> and in no
  other state, where the event does nothing. Its handler \<open>handleDelete\<close> asks first
  and a no ends it; after a yes it calls the delete; on an error it changes no state
  and its only other effect is the destructive toast with the store's message; on
  success it refreshes the route, sets \<open>open\<close> to false and shows "Species Deleted".
  For the click as a whole, whatever the form's submission adds after the handler: a
  no leads to no delete call; on success the dialog is \<open>Closed\<close> and the effects start
  with the prompt, the delete call, the refresh and the toast; on an error the dialog
  stays open and the effects start with the prompt, the delete call and the
  destructive toast.
\<close>

theorem delete_species_from_editing:
  "renders p s (DeleteSpecies b e e') = (state_of s = Editing)
   \<and> (state_of s \<noteq> Editing \<longrightarrow> step renders rt p s (DeleteSpecies b e e') = (s, []))
   \<and> handleDelete p s False e =
        (s, [WindowConfirm (lit ''Are you sure you want to delete this species?'')])
   \<and> handleDelete p s True (Some (PostgrestError message)) =
        (s, [WindowConfirm (lit ''Are you sure you want to delete this species?''),
             SpeciesDelete (species_id (species p)),
             ToastShown (Toast (lit ''Something went wrong.'') message destructive)])
   \<and> handleDelete p s True None =
        (s\<lparr>open := False\<rparr>,
         [WindowConfirm (lit ''Are you sure you want to delete this species?''),
          SpeciesDelete (species_id (species p)),
          RouterRefresh,
          ToastShown (Toast (lit ''Species Deleted'')
            (lit ''Successfully deleted '' @ scientific_name (species p) @ lit ''.'')
            default_variant)])
   \<and> (state_of s = Editing \<longrightarrow>
        (\<forall>i. SpeciesDelete i \<notin> set (snd (step renders rt p s (DeleteSpecies False e e'))))
      \<and> take 1 (snd (step renders rt p s (DeleteSpecies False e e')))
          = [WindowConfirm (lit ''Are you sure you want to delete this species?'')]
      \<and> state_of (fst (step renders rt p s (DeleteSpecies True None e'))) = Closed
      \<and> take 4 (snd (step renders rt p s (DeleteSpecies True None e')))
          = [WindowConfirm (lit ''Are you sure you want to delete this species?''),
             SpeciesDelete (species_id (species p)),
             RouterRefresh,
             ToastShown (Toast (lit ''Species Deleted'')
               (lit ''Successfully deleted '' @ scientific_name (species p) @ lit ''.'')
               default_variant)]
      \<and> open (fst (step renders rt p s
            (DeleteSpecies True (Some (PostgrestError message)) e'))) = open s
      \<and> take 3 (snd (step renders rt p s
            (DeleteSpecies True (Some (PostgrestError message)) e')))
          = [WindowConfirm (lit ''Are you sure you want to delete this species?''),
             SpeciesDelete (species_id (species p)),
             ToastShown (Toast (lit ''Something went wrong.'') message destructive)])"
proof -
  have r: "renders p s (DeleteSpecies b e e') = (state_of s = Editing)" for b e e'
    by (simp add: state_of_def)
  have h1: "handleDelete p s False e =
        (s, [WindowConfirm (lit ''Are you sure you want to delete this species?'')])"
    by (simp add: handleDelete_def)
  have h2: "handleDelete p s True (Some (PostgrestError message)) =
        (s, [WindowConfirm (lit ''Are you sure you want to delete this species?''),
             SpeciesDelete (species_id (species p)),
             ToastShown (Toast (lit ''Something went wrong.'') message destructive)])"
    by (simp add: handleDelete_def)
  have h3: "handleDelete p s True None =
        (s\<lparr>open := False\<rparr>,
         [WindowConfirm (lit ''Are you sure you want to delete this species?''),
          SpeciesDelete (species_id (species p)),
          RouterRefresh,
          ToastShown (Toast (lit ''Species Deleted'')
            (lit ''Successfully deleted '' @ scientific_name (species p) @ lit ''.'')
            default_variant)])"
    by (simp add: handleDelete_def)
  have click: "step renders rt p s (DeleteSpecies b e e') =
      (fst (speciesForm_handleSubmit (url_parses rt) p (fst (handleDelete p s b e)) e'),
       snd (handleDelete p s b e)
         @ snd (speciesForm_handleSubmit (url_parses rt) p (fst (handleDelete p s b e)) e'))"
    if "state_of s = Editing" for b e e'
  proof -
    from that have "open s \<and> isEditing s"
      by (auto simp: state_of_def split: if_splits)
    then show ?thesis
      by (simp add: step_def split: prod.splits)
  qed
  have closed: "state_of (fst (speciesForm_handleSubmit (url_parses rt) p
      (s\<lparr>open := False\<rparr>) e')) = Closed"
    using handleSubmit_keeps_open [of "url_parses rt" p "s\<lparr>open := False\<rparr>" e']
    by (simp add: state_of_def)
  have editing: ?thesis if ed: "state_of s = Editing"
  proof -
    let ?sub = "speciesForm_handleSubmit (url_parses rt) p"
    have c1: "step renders rt p s (DeleteSpecies False e e') =
        (fst (?sub s e'),
         WindowConfirm (lit ''Are you sure you want to delete this species?'')
           # snd (?sub s e'))"
      using click [OF ed, of False e e'] h1 by simp
    have c2: "step renders rt p s (DeleteSpecies True None e') =
        (fst (?sub (s\<lparr>open := False\<rparr>) e'),
         WindowConfirm (lit ''Are you sure you want to delete this species?'')
           # SpeciesDelete (species_id (species p))
           # RouterRefresh
           # ToastShown (Toast (lit ''Species Deleted'')
               (lit ''Successfully deleted '' @ scientific_name (species p) @ lit ''.'')
               default_variant)
           # snd (?sub (s\<lparr>open := False\<rparr>) e'))"
      using click [OF ed, of True None e'] h3 by simp
    have c3: "step renders rt p s (DeleteSpecies True (Some (PostgrestError message)) e') =
        (fst (?sub s e'),
         WindowConfirm (lit ''Are you sure you want to delete this species?'')
           # SpeciesDelete (species_id (species p))
           # ToastShown (Toast (lit ''Something went wrong.'') message destructive)
           # snd (?sub s e'))"
      using click [OF ed, of True "Some (PostgrestError message)" e'] h2 by simp
    have nd: "SpeciesDelete i \<notin> set (snd (?sub s e'))" for i
      using handleSubmit_keeps_open [of "url_parses rt" p s e' i] by simp
    have op: "open (fst (?sub s e')) = open s"
      using handleSubmit_keeps_open [of "url_parses rt" p s e'] by simp
    have g1: "\<forall>i. SpeciesDelete i
        \<notin> set (snd (step renders rt p s (DeleteSpecies False e e')))"
      using c1 nd by simp
    have g2: "take 1 (snd (step renders rt p s (DeleteSpecies False e e')))
          = [WindowConfirm (lit ''Are you sure you want to delete this species?'')]"
      using c1 by simp
    have g3: "state_of (fst (step renders rt p s (DeleteSpecies True None e'))) = Closed"
      using c2 closed by simp
    have g4: "take 4 (snd (step renders rt p s (DeleteSpecies True None e')))
          = [WindowConfirm (lit ''Are you sure you want to delete this species?''),
             SpeciesDelete (species_id (species p)),
             RouterRefresh,
             ToastShown (Toast (lit ''Species Deleted'')
               (lit ''Successfully deleted '' @ scientific_name (species p) @ lit ''.'')
               default_variant)]"
      using c2 by simp
    have g5: "open (fst (step renders rt p s
            (DeleteSpecies True (Some (PostgrestError message)) e'))) = open s"
      using c3 op by simp
    have g6: "take 3 (snd (step renders rt p s
            (DeleteSpecies True (Some (PostgrestError message)) e')))
          = [WindowConfirm (lit ''Are you sure you want to delete this species?''),
             SpeciesDelete (species_id (species p)),
             ToastShown (Toast (lit ''Something went wrong.'') message destructive)]"
      using c3 by simp
    from ed r h1 h2 h3 g1 g2 g3 g4 g5 g6 show ?thesis by blast
  qed
  have other: ?thesis if ne: "state_of s \<noteq> Editing"
  proof -
    from ne r have "\<not> renders p s (DeleteSpecies b e e')" by blast
    then have "step renders rt p s (DeleteSpecies b e e') = (s, [])"
      unfolding step_def by (rule if_not_P)
    with ne r h1 h2 h3 show ?thesis by blast
  qed
  from editing other show ?thesis by blast
qed

text \<open>C6 for the owner of the example species, viewing and editing.\<close>

theorem delete_species_from_editing_witness:
  "state_of owner_viewing \<noteq> Editing \<and> state_of owner_editing = Editing
   \<and> step renders example_runtime owner_props owner_viewing
        (DeleteSpecies True None None) = (owner_viewing, [])
   \<and> state_of (fst (step renders example_runtime owner_props owner_editing
        (DeleteSpecies True None None))) = Closed
   \<and> take 1 (snd (step renders example_runtime owner_props owner_editing
        (DeleteSpecies False None None)))
       = [WindowConfirm (lit ''Are you sure you want to delete this species?'')]"
proof -
  have 1: "state_of owner_viewing \<noteq> Editing"
    by (simp add: owner_viewing_def state_of_def initial_def)
  have 2: "state_of owner_editing = Editing"
    by (simp add: owner_editing_def state_of_def initial_def)
  from 1 2
    delete_species_from_editing [where s = owner_viewing and p = owner_props
      and rt = example_runtime and b = True and e = None and e' = None]
    delete_species_from_editing [where s = owner_editing and p = owner_props
      and rt = example_runtime and b = True and e = None and e' = None]
  show ?thesis by simp
qed

text \<open>
  C6 stated for \<open>Viewing\<close> as well fails: the owner viewing the example species is
  offered no Delete Species, and the event changes nothing and calls nothing.
\<close>

theorem delete_not_rendered_when_viewing:
  "state_of owner_viewing = Viewing
   \<and> userId owner_props = author (species owner_props)
   \<and> \<not> renders owner_props owner_viewing (DeleteSpecies True None None)
   \<and> step renders example_runtime owner_props owner_viewing (DeleteSpecies True None None)
       = (owner_viewing, [])"
  by (simp add: owner_viewing_def owner_props_def guinea_pig_def initial_def state_of_def
      step_def)


section \<open>Opening and closing\<close>

text \<open>
  C7. Opening the dialog gives \<open>Viewing\<close> from every state, with no effect, whatever
  \<open>isEditing\<close> was before; so after any session, whatever it did, opening gives
  \<open>Viewing\<close>. Both dialogs.
\<close>

theorem open_yields_Viewing:
  "state_of (fst (step renders rt p s (OpenChange True))) = Viewing
   \<and> state_of (fst (step renders_without_comments rt p s (OpenChange True))) = Viewing
   \<and> snd (step renders rt p s (OpenChange True)) = []
   \<and> snd (step renders_without_comments rt p s (OpenChange True)) = []
   \<and> state_of (fst (run renders rt p (initial p) (evs @ [OpenChange True]))) = Viewing
   \<and> state_of (fst (run renders_without_comments rt p (initial p)
        (evs @ [OpenChange True]))) = Viewing"
proof -
  have st: "step renders rt p s' (OpenChange True)
      = (s'\<lparr>isEditing := False, open := True\<rparr>, [])" for s'
    by (simp add: step_def handleOpenChange_def)
  have st': "step renders_without_comments rt p s' (OpenChange True)
      = (s'\<lparr>isEditing := False, open := True\<rparr>, [])" for s'
    by (simp add: step_def handleOpenChange_def)
  have v: "state_of (s'\<lparr>isEditing := False, open := True\<rparr>) = Viewing" for s'
    by (simp add: state_of_def)
  show ?thesis
    by (simp add: run_append st st' v split: prod.splits)
qed

text \<open>
  C10. Closing the dialog, in \<open>Editing\<close> as in any state, is the single step to
  \<open>Closed\<close> with \<open>isEditing\<close> false and no effect at all: no prompt, no call to the
  record store. Both dialogs.
\<close>

theorem close_while_editing:
  "step renders rt p s (OpenChange False) = (s\<lparr>isEditing := False, open := False\<rparr>, [])
   \<and> step renders_without_comments rt p s (OpenChange False)
       = (s\<lparr>isEditing := False, open := False\<rparr>, [])
   \<and> state_of (s\<lparr>isEditing := False, open := False\<rparr>) = Closed
   \<and> \<not> isEditing (s\<lparr>isEditing := False, open := False\<rparr>)
   \<and> handleOpenChange False s = (s\<lparr>isEditing := False, open := False\<rparr>, [])"
proof -
  have h: "handleOpenChange False s = (s\<lparr>isEditing := False, open := False\<rparr>, [])"
    by (simp add: handleOpenChange_def)
  have "step renders rt p s (OpenChange False) = handleOpenChange False s"
    and "step renders_without_comments rt p s (OpenChange False) = handleOpenChange False s"
    by (simp_all add: step_def)
  with h show ?thesis by (simp add: state_of_def)
qed


section \<open>Posting a comment\<close>

lemma commentFormSchema_Inr:
  "commentFormSchema raw = Inr c \<Longrightarrow>
     c = js_trim raw \<and> 1 \<le> length raw \<and> length raw \<le> 150"
  by (cases raw) (auto simp: commentFormSchema_def Let_def split: if_splits)

text \<open>
  C8, as the code has it. A comment that validation accepts, posted by user
  \<open>userId p\<close> on species \<open>species p\<close>: what the form hands to \<open>onPost\<close> is the parsed
  content, so the record store receives the insert of the trimmed comment (the
  comment itself when it has no white space at its ends, as "Hello"), that author and
  that species. On success the comment input is reset to the empty string, the route
  is refreshed and a toast is shown; on an error the state, the input with it, is
  unchanged and the only other effect is the destructive toast.
\<close>

theorem post_sends_trimmed_content:
  assumes "commentFormSchema raw = Inr c" and "state_of s = Viewing"
    and "commentForm s = raw"
  shows "c = js_trim raw
       \<and> step renders rt p s (Post None) =
           (s\<lparr>commentForm := []\<rparr>,
            [CommentsInsert (userId p) (js_trim raw) (species_id (species p)),
             RouterRefresh,
             ToastShown (Toast (lit ''Comment Posted!'')
               (lit ''Successfully commented '' @ [0x22] @ excerpt (js_trim raw) @ [0x22])
               default_variant)])
       \<and> step renders rt p s (Post (Some (PostgrestError message))) =
           (s, [CommentsInsert (userId p) (js_trim raw) (species_id (species p)),
                ToastShown (Toast (lit ''Something went wrong.'') message destructive)])"
proof -
  from assms(2) have v: "open s \<and> \<not> isEditing s"
    by (auto simp: state_of_def split: if_splits)
  from assms(1) have c: "c = js_trim raw" using commentFormSchema_Inr by blast
  from v c assms(1,3) show ?thesis
    by (simp add: step_def commentForm_handleSubmit_def onPost_def)
qed

text \<open>C8 for "Hello", posted by user \<open>u1\<close> on species 7.\<close>

theorem post_sends_trimmed_content_witness:
  "commentFormSchema (lit ''Hello'') = Inr (lit ''Hello'')
   \<and> state_of (owner_viewing\<lparr>commentForm := lit ''Hello''\<rparr>) = Viewing
   \<and> commentForm (owner_viewing\<lparr>commentForm := lit ''Hello''\<rparr>) = lit ''Hello''
   \<and> fst (step renders example_runtime owner_props
        (owner_viewing\<lparr>commentForm := lit ''Hello''\<rparr>) (Post None))
       = owner_viewing\<lparr>commentForm := []\<rparr>
   \<and> hd (snd (step renders example_runtime owner_props
        (owner_viewing\<lparr>commentForm := lit ''Hello''\<rparr>) (Post None)))
       = CommentsInsert (lit ''u1'') (lit ''Hello'') 7"
proof -
  have 1: "commentFormSchema (lit ''Hello'') = Inr (lit ''Hello'')"
    by (simp add: commentFormSchema_def lit_def js_trim_def isWhiteSpace_def Let_def)
  have 2: "state_of (owner_viewing\<lparr>commentForm := lit ''Hello''\<rparr>) = Viewing"
    by (simp add: owner_viewing_def state_of_def initial_def)
  have 3: "commentForm (owner_viewing\<lparr>commentForm := lit ''Hello''\<rparr>) = lit ''Hello''"
    by simp
  have 4: "userId owner_props = lit ''u1'' \<and> species_id (species owner_props) = 7"
    by (simp add: owner_props_def guinea_pig_def)
  have 5: "js_trim (lit ''Hello'') = lit ''Hello''"
    by (simp add: lit_def js_trim_def isWhiteSpace_def)
  from post_sends_trimmed_content [OF 1 2 3, of example_runtime owner_props] 1 2 4 5
  show ?thesis by simp
qed

text \<open>
  C8 stated with the content as entered fails: " Hello " (a space on each side)
  passes validation, and posted by user \<open>u1\<close> on species 7 it reaches the record store
  as "Hello", which is another string.
\<close>

theorem post_padded_content_counterexample:
  "commentFormSchema (lit '' Hello '') = Inr (lit ''Hello'')
   \<and> lit ''Hello'' \<noteq> lit '' Hello ''
   \<and> state_of (owner_viewing\<lparr>commentForm := lit '' Hello ''\<rparr>) = Viewing
   \<and> hd (snd (step renders example_runtime owner_props
        (owner_viewing\<lparr>commentForm := lit '' Hello ''\<rparr>) (Post None)))
       = CommentsInsert (lit ''u1'') (lit ''Hello'') 7"
proof -
  have 1: "commentFormSchema (lit '' Hello '') = Inr (lit ''Hello'')"
    by (simp add: commentFormSchema_def lit_def js_trim_def isWhiteSpace_def Let_def)
  have 2: "lit ''Hello'' \<noteq> lit '' Hello ''"
    by (simp add: lit_def)
  have 3: "state_of (owner_viewing\<lparr>commentForm := lit '' Hello ''\<rparr>) = Viewing"
    by (simp add: owner_viewing_def state_of_def initial_def)
  have 4: "userId owner_props = lit ''u1'' \<and> species_id (species owner_props) = 7"
    by (simp add: owner_props_def guinea_pig_def)
  have 5: "open (owner_viewing\<lparr>commentForm := lit '' Hello ''\<rparr>)
      \<and> \<not> isEditing (owner_viewing\<lparr>commentForm := lit '' Hello ''\<rparr>)"
    by (simp add: owner_viewing_def initial_def)
  from 1 2 3 4 5 show ?thesis
    by (simp add: step_def commentForm_handleSubmit_def onPost_def)
qed

end
